theory Spec2Isabelle
  imports Main
begin

section \<open>Conflict resolution engine (conflict-resolver.service.ts)\<close>

text \<open>
  Values of the source and their representation here.
  \<^item> A number that stands for a time is a whole number of milliseconds since the epoch,
    an \<open>int\<close> of any size (a frame can carry any number).
  \<^item> A JavaScript \<open>Date\<close> is represented by its time value, an \<open>int option\<close>: \<open>None\<close>
    is the Invalid Date, whose time value is \<open>NaN\<close>. \<open>new Date(t)\<close> is valid only for
    a \<open>t\<close> of at most 8.64e15 in absolute value, and a comparison \<open>>\<close> or \<open><=\<close> with
    an Invalid Date is false. The dates that the clock gives and the dates read from the
    store are valid and are kept as their time value, an \<open>int\<close>.
  \<^item> \<open>new Date()\<close> and \<open>Date.now()\<close> read the server clock; every function that reads
    the clock takes the value read as an argument, one argument per read.
  \<^item> An optional field (\<open>x?: T\<close>) is a \<open>T option\<close>, \<open>undefined\<close> is \<open>None\<close>.
  \<^item> The tests \<open>if (x)\<close>, \<open>x && \<dots>\<close> and \<open>x ? a : b\<close> of the source test JavaScript
    truthiness: an optional string passes when it is present and not empty, an optional
    number when it is present and not zero.
  \<^item> Logger calls have no effect on any result and are left out.
\<close>

definition truthy_string :: "string option \<Rightarrow> bool" where
  "truthy_string s = (case s of None \<Rightarrow> False | Some v \<Rightarrow> v \<noteq> [])"

definition truthy_number :: "int option \<Rightarrow> bool" where
  "truthy_number n = (case n of None \<Rightarrow> False | Some v \<Rightarrow> v \<noteq> 0)"

definition truthy_boolean :: "bool option \<Rightarrow> bool" where
  "truthy_boolean b = (case b of None \<Rightarrow> False | Some v \<Rightarrow> v)"

text \<open>The \<open>existingFile\<close> member of \<open>FileConflictData\<close>.\<close>

record ExistingFile =
  ef_id :: nat
  ef_hash :: string
  ef_version :: nat
  ef_mtime :: int
  ef_size :: nat

record FileConflictData =
  cd_vaultId :: string
  cd_filePath :: string
  clientContent :: string
  clientHash :: string
  clientTimestamp :: "int option"
  previousHash :: "string option"
  existingFile :: "ExistingFile option"

datatype action = Accept | Reject | Update_mtime_only | No_change

record ConflictResolution =
  action :: action
  reason :: string
  conflictType :: "string option"
  clientMtime :: "int option"
  serverMtime :: "int option"
  currentVersion :: "nat option"
  currentHash :: "string option"
  updated :: "string option"

text \<open>A resolution with every optional member absent.\<close>

definition mkResolution :: "action \<Rightarrow> string \<Rightarrow> ConflictResolution" where
  "mkResolution a r =
     \<lparr>action = a, reason = r, conflictType = None, clientMtime = None, serverMtime = None,
      currentVersion = None, currentHash = None, updated = None\<rparr>"

text \<open>\<open>new Date(t)\<close> for a number \<open>t\<close>.\<close>

definition newDate :: "int \<Rightarrow> int option" where
  "newDate t = (if \<bar>t\<bar> \<le> 8640000000000000 then Some t else None)"

text \<open>The comparisons \<open>a > b\<close> and \<open>a <= b\<close> of two dates.\<close>

definition date_gt :: "int option \<Rightarrow> int option \<Rightarrow> bool" where
  "date_gt a b = (case (a, b) of (Some x, Some y) \<Rightarrow> x > y | _ \<Rightarrow> False)"

definition date_le :: "int option \<Rightarrow> int option \<Rightarrow> bool" where
  "date_le a b = (case (a, b) of (Some x, Some y) \<Rightarrow> x \<le> y | _ \<Rightarrow> False)"

text \<open>
  \<open>const clientMtime = clientTimestamp ? new Date(clientTimestamp) : new Date()\<close>;
  \<open>now\<close> is the clock value that \<open>new Date()\<close> reads.
\<close>

definition claimedMtime :: "int \<Rightarrow> int option \<Rightarrow> int option" where
  "claimedMtime now ts = (if truthy_number ts then newDate (the ts) else Some now)"

text \<open>
  \<open>ConflictResolverService.resolveFileConflict\<close>, branch by branch in source order. In
  the \<open>older_timestamp\<close> branch \<open>clientMtime\<close> is a valid date, and \<open>getTime()\<close> gives
  its time value.
\<close>

definition resolveFileConflict :: "int \<Rightarrow> FileConflictData \<Rightarrow> ConflictResolution" where
  "resolveFileConflict now d =
     (case existingFile d of
        None \<Rightarrow> (mkResolution Accept ''Creating new file'')\<lparr>updated := Some ''created''\<rparr>
      | Some f \<Rightarrow>
          (let cm = claimedMtime now (clientTimestamp d) in
           if truthy_string (previousHash d) \<and> Some (ef_hash f) \<noteq> previousHash d then
             (mkResolution Reject ''File has been modified by another client since last read'')
               \<lparr>conflictType := Some ''hash_mismatch'',
                currentVersion := Some (ef_version f),
                currentHash := Some (ef_hash f)\<rparr>
           else if ef_hash f = clientHash d then
             (if date_gt cm (Some (ef_mtime f)) then
                (mkResolution Update_mtime_only ''Same content, updating modification time'')
                  \<lparr>updated := Some ''mtime_only''\<rparr>
              else
                (mkResolution No_change ''Content and timestamp are up to date'')
                  \<lparr>updated := Some ''no_change''\<rparr>)
           else if \<not> truthy_string (previousHash d) \<and> date_le cm (Some (ef_mtime f)) then
             (mkResolution Reject ''Client version is older than server version'')
               \<lparr>conflictType := Some ''older_timestamp'',
                clientMtime := cm,
                serverMtime := Some (ef_mtime f),
                currentVersion := Some (ef_version f),
                currentHash := Some (ef_hash f)\<rparr>
           else
             (mkResolution Accept
                ''Update accepted - client version is newer or hash validation passed'')
               \<lparr>updated := Some ''full''\<rparr>))"

text \<open>
  \<open>ConflictResolverService.resolveDeleteConflict\<close>. The source takes \<open>existingFile?: any\<close>
  and tests only whether it is there, so the model takes whether a record was found.
\<close>

definition resolveDeleteConflict ::
  "string \<Rightarrow> string \<Rightarrow> 'f option \<Rightarrow> bool option \<Rightarrow> ConflictResolution" where
  "resolveDeleteConflict vault path existing hasActiveLocks =
     (if existing = None then
        (mkResolution Accept ''File already does not exist'')\<lparr>updated := Some ''already_deleted''\<rparr>
      else if truthy_boolean hasActiveLocks then
        (mkResolution Reject ''Cannot delete file with active locks'')
          \<lparr>conflictType := Some ''file_locked''\<rparr>
      else mkResolution Accept ''Delete operation is valid'')"

text \<open>\<open>ConflictResolverService.resolveRenameConflict\<close>.\<close>

definition resolveRenameConflict ::
  "string \<Rightarrow> string \<Rightarrow> string \<Rightarrow> 'f option \<Rightarrow> bool option \<Rightarrow> ConflictResolution" where
  "resolveRenameConflict vault oldPath newPath existing targetExists =
     (if existing = None then
        (mkResolution Reject ''Cannot rename non-existent file'')
          \<lparr>conflictType := Some ''source_not_found''\<rparr>
      else if truthy_boolean targetExists then
        (mkResolution Reject ''Target path already exists'')
          \<lparr>conflictType := Some ''target_exists''\<rparr>
      else mkResolution Accept ''Rename operation is valid'')"

section \<open>Metadata store\<close>

text \<open>
  Modelled from the spec: the tables of the metadata store (the Prisma schema and client
  are not under src/). A table with a unique key is a map from the key to the row:
  devices by the client's device id, file records by vault id and path ("path (unique
  per tree)"), file locks by file id ("at most one lock per file"); the audit records
  are a list in creation order. The rows have the columns that the source reads and
  writes. Row ids are natural numbers taken from a counter, a new file record has
  version 1, and a query \<open>where: { id }\<close> for a row that was read under its key in the
  same transaction addresses that row. The tables have no referential constraint: a
  file record can be deleted while a lock row refers to it, as the order of the two
  deletions in \<open>processDeleteOperation\<close> takes for granted. The client of the store
  validates its arguments and refuses an Invalid Date with an error, which
  \<open>errorHandler.handleError\<close> turns into a database error; so every date in the store is
  valid. Failures of the database itself (connection, timeout) are not modelled.
\<close>

datatype operationType = CREATE | UPDATE | DELETE | RENAME

record DeviceRow =
  dev_id :: nat
  dev_vaultId :: string
  dev_deviceName :: string

record FileRow =
  file_id :: nat
  file_hash :: string
  file_size :: nat
  file_mtime :: int
  file_version :: nat

record FileLockRow =
  lock_id :: nat
  lock_vaultId :: string
  lock_deviceId :: nat
  lockedAt :: int
  expiresAt :: int

record SyncOperationRow =
  op_id :: nat
  op_vaultId :: string
  op_deviceId :: nat
  op_operationType :: operationType
  op_filePath :: string
  op_previousHash :: "string option"
  op_newHash :: "string option"
  op_timestamp :: "int option"
  op_status :: string

record store =
  devices :: "string \<rightharpoonup> DeviceRow"
  files :: "string \<times> string \<rightharpoonup> FileRow"
  fileLocks :: "nat \<rightharpoonup> FileLockRow"
  syncOperations :: "SyncOperationRow list"
  nextId :: nat

datatype sync_error =
    DEVICE_NOT_FOUND string
  | FILE_TOO_LARGE nat nat string
  | HASH_MISMATCH string string string
  | INTERNAL_SERVER_ERROR string
  | DATABASE_ERROR string

text \<open>\<open>tx.syncOperation.create\<close>: the new row gets a fresh id.\<close>

definition syncOperation_create :: "SyncOperationRow \<Rightarrow> store \<Rightarrow> nat \<times> store" where
  "syncOperation_create row st =
     (nextId st,
      st\<lparr>syncOperations := syncOperations st @ [row\<lparr>op_id := nextId st\<rparr>],
         nextId := Suc (nextId st)\<rparr>)"

text \<open>\<open>tx.syncOperation.update({ where: { id }, data: { status } })\<close>.\<close>

definition syncOperation_set_status :: "nat \<Rightarrow> string \<Rightarrow> store \<Rightarrow> store" where
  "syncOperation_set_status i s st =
     st\<lparr>syncOperations :=
          map (\<lambda>r. if op_id r = i then r\<lparr>op_status := s\<rparr> else r) (syncOperations st)\<rparr>"

text \<open>\<open>tx.syncOperation.update({ where: { id }, data: { newHash } })\<close>.\<close>

definition syncOperation_set_newHash :: "nat \<Rightarrow> string \<Rightarrow> store \<Rightarrow> store" where
  "syncOperation_set_newHash i h st =
     st\<lparr>syncOperations :=
          map (\<lambda>r. if op_id r = i then r\<lparr>op_newHash := Some h\<rparr> else r) (syncOperations st)\<rparr>"

text \<open>
  \<open>prisma.$transaction(callback)\<close>: when the callback throws, every write it made is
  rolled back and the error is rethrown; otherwise its writes are committed.
\<close>

definition transaction ::
  "(store \<Rightarrow> 'e + 'a \<times> store) \<Rightarrow> store \<Rightarrow> ('e + 'a) \<times> store" where
  "transaction body st =
     (case body st of Inl e \<Rightarrow> (Inl e, st) | Inr (r, st') \<Rightarrow> (Inr r, st'))"

section \<open>Sync service (sync.service.ts, class SyncService)\<close>

record FileOperationData =
  fo_vaultId :: string
  fo_deviceId :: string
  fo_filePath :: string
  fo_content :: string
  fo_operationType :: operationType
  fo_previousHash :: "string option"
  fo_clientTimestamp :: "int option"
  fo_newPath :: "string option"

record FileOperationResult =
  r_success :: bool
  r_version :: nat
  r_hash :: string
  r_currentVersion :: "nat option"
  r_currentHash :: "string option"
  r_conflictType :: "string option"
  r_clientMtime :: "int option"
  r_serverMtime :: "int option"
  r_updated :: "string option"

definition operationResult :: "bool \<Rightarrow> nat \<Rightarrow> string \<Rightarrow> FileOperationResult" where
  "operationResult s v h =
     \<lparr>r_success = s, r_version = v, r_hash = h, r_currentVersion = None,
      r_currentHash = None, r_conflictType = None, r_clientMtime = None,
      r_serverMtime = None, r_updated = None\<rparr>"

text \<open>
  The content store is written after the metadata, fire-and-forget
  (\<open>writeFileToStorage\<close>, \<open>deleteFileFromStorage\<close>, \<open>renameFileInStorage\<close>: the promise
  is not awaited and a failure is only logged). An operation returns, next to its result,
  the storage calls it has issued.
\<close>

datatype storage_call =
    WriteFileCall string string string
  | DeleteFileCall string string
  | RenameFileCall string string string

text \<open>
  \<open>SyncService.processCreateUpdateOperation\<close>. The arguments \<open>sha\<close> and \<open>maxFileSize\<close>
  are \<open>storage.calculateHash\<close> (the SHA-256 hex digest, from the \<open>crypto\<close> library) and
  \<open>configService.maxFileSize\<close>; a content string is its UTF-8 byte sequence, so
  \<open>storage.calculateSize\<close> is \<open>length\<close>. \<open>now_r\<close> is the clock read by the resolver and
  \<open>now_w\<close> the one read when the record is written. The date written is
  \<open>data.clientTimestamp ? new Date(data.clientTimestamp) : new Date()\<close>; when it is an
  Invalid Date, \<open>tx.file.update\<close> and \<open>tx.file.create\<close> throw, and the throw rolls the
  transaction back.
\<close>

definition processCreateUpdateOperation ::
  "(string \<Rightarrow> string) \<Rightarrow> nat \<Rightarrow> int \<Rightarrow> int \<Rightarrow> FileOperationData \<Rightarrow> nat \<Rightarrow> store
     \<Rightarrow> (sync_error + FileOperationResult \<times> storage_call list) \<times> store" where
  "processCreateUpdateOperation sha maxFileSize now_r now_w data deviceDbId st =
     (let hash = sha (fo_content data);
          contentSize = length (fo_content data)
      in
      if contentSize > maxFileSize then
        (Inl (FILE_TOO_LARGE contentSize maxFileSize (fo_filePath data)), st)
      else
        transaction (\<lambda>tx0.
          let (syncOp, tx) = syncOperation_create
                \<lparr>op_id = 0, op_vaultId = fo_vaultId data, op_deviceId = deviceDbId,
                 op_operationType = fo_operationType data, op_filePath = fo_filePath data,
                 op_previousHash = fo_previousHash data, op_newHash = Some hash,
                 op_timestamp = None, op_status = ''pending''\<rparr> tx0;
              key = (fo_vaultId data, fo_filePath data);
              mtime = claimedMtime now_w (fo_clientTimestamp data);
              outcome =
                (case files tx key of
                   Some existing \<Rightarrow>
                     (let resolution = resolveFileConflict now_r
                            \<lparr>cd_vaultId = fo_vaultId data, cd_filePath = fo_filePath data,
                             clientContent = fo_content data, clientHash = hash,
                             clientTimestamp = fo_clientTimestamp data,
                             previousHash = fo_previousHash data,
                             existingFile = Some
                               \<lparr>ef_id = file_id existing, ef_hash = file_hash existing,
                                ef_version = file_version existing,
                                ef_mtime = file_mtime existing,
                                ef_size = file_size existing\<rparr>\<rparr>
                      in
                      if action resolution = Reject then
                        Inr ((operationResult False (file_version existing)
                                (file_hash existing))
                               \<lparr>r_currentVersion := currentVersion resolution,
                                r_currentHash := currentHash resolution,
                                r_conflictType := conflictType resolution,
                                r_clientMtime := clientMtime resolution,
                                r_serverMtime := serverMtime resolution\<rparr>,
                             tx)
                      else if action resolution = Update_mtime_only then
                        (case mtime of
                           None \<Rightarrow> Inl (DATABASE_ERROR ''Provided Date object is invalid'')
                         | Some m \<Rightarrow>
                             (let updatedFile = existing
                                    \<lparr>file_mtime := m,
                                     file_version := file_version existing + 1\<rparr>
                              in Inr ((operationResult True (file_version updatedFile) hash)
                                        \<lparr>r_updated := updated resolution\<rparr>,
                                      tx\<lparr>files := (files tx)(key \<mapsto> updatedFile)\<rparr>)))
                      else if action resolution = No_change then
                        Inr ((operationResult True (file_version existing) hash)
                               \<lparr>r_updated := updated resolution\<rparr>,
                             tx)
                      else
                        (case mtime of
                           None \<Rightarrow> Inl (DATABASE_ERROR ''Provided Date object is invalid'')
                         | Some m \<Rightarrow>
                             (let updatedFile = existing
                                    \<lparr>file_hash := hash, file_size := contentSize,
                                     file_mtime := m,
                                     file_version := file_version existing + 1\<rparr>
                              in Inr ((operationResult True (file_version updatedFile) hash)
                                        \<lparr>r_updated := updated resolution\<rparr>,
                                      tx\<lparr>files := (files tx)(key \<mapsto> updatedFile)\<rparr>))))
                 | None \<Rightarrow>
                     (case mtime of
                        None \<Rightarrow> Inl (DATABASE_ERROR ''Provided Date object is invalid'')
                      | Some m \<Rightarrow>
                          (let newFile = \<lparr>file_id = nextId tx, file_hash = hash,
                                          file_size = contentSize, file_mtime = m,
                                          file_version = 1\<rparr>
                           in Inr ((operationResult True (file_version newFile) hash)
                                     \<lparr>r_updated := Some ''created''\<rparr>,
                                   tx\<lparr>files := (files tx)(key \<mapsto> newFile),
                                      nextId := Suc (nextId tx)\<rparr>))))
          in
          (case outcome of
             Inl e \<Rightarrow> Inl e
           | Inr (result, tx') \<Rightarrow>
               (let tx'' = syncOperation_set_status syncOp
                             (if r_success result then ''applied'' else ''conflicted'') tx';
                    calls = (if r_success result
                                \<and> (r_updated result = Some ''full''
                                   \<or> r_updated result = Some ''created'')
                             then [WriteFileCall (fo_vaultId data) (fo_filePath data)
                                     (fo_content data)]
                             else [])
                in Inr ((result, calls), tx'')))) st)"

text \<open>
  \<open>SyncService.processDeleteOperation\<close>. The resolver is called with three arguments,
  so its \<open>hasActiveLocks\<close> parameter is \<open>undefined\<close>. A reject marks the audit record
  and throws; the throw rolls the transaction back.
\<close>

definition processDeleteOperation ::
  "FileOperationData \<Rightarrow> nat \<Rightarrow> store
     \<Rightarrow> (sync_error + FileOperationResult \<times> storage_call list) \<times> store" where
  "processDeleteOperation data deviceDbId st =
     transaction (\<lambda>tx0.
       let (syncOp, tx) = syncOperation_create
             \<lparr>op_id = 0, op_vaultId = fo_vaultId data, op_deviceId = deviceDbId,
              op_operationType = DELETE, op_filePath = fo_filePath data,
              op_previousHash = None, op_newHash = None,
              op_timestamp = None, op_status = ''pending''\<rparr> tx0;
           key = (fo_vaultId data, fo_filePath data);
           existing = files tx key;
           resolution = resolveDeleteConflict (fo_vaultId data) (fo_filePath data)
                          existing None
       in
       if action resolution = Reject then Inl (INTERNAL_SERVER_ERROR (reason resolution))
       else
         (let tx' = (case existing of
                       Some f \<Rightarrow> tx\<lparr>files := (files tx)(key := None),
                                    fileLocks := (fileLocks tx)(file_id f := None)\<rparr>
                     | None \<Rightarrow> tx);
              result = operationResult True 0 [];
              tx'' = syncOperation_set_status syncOp ''applied'' tx';
              calls = (case existing of
                         Some f \<Rightarrow> [DeleteFileCall (fo_vaultId data) (fo_filePath data)]
                       | None \<Rightarrow> [])
          in Inr ((result, calls), tx''))) st"

text \<open>
  \<open>SyncService.processRenameOperation\<close>; \<open>now\<close> is the clock read for the new
  modification time. \<open>processFileChange\<close> calls it only with a new path. The resolver
  rejects a source that does not exist, so the branch in which \<open>existingFile.id\<close> is
  read of \<open>null\<close> is never taken.
\<close>

definition processRenameOperation ::
  "int \<Rightarrow> FileOperationData \<Rightarrow> string \<Rightarrow> nat \<Rightarrow> store
     \<Rightarrow> (sync_error + FileOperationResult \<times> storage_call list) \<times> store" where
  "processRenameOperation now data newPath deviceDbId st =
     transaction (\<lambda>tx0.
       let (syncOp, tx) = syncOperation_create
             \<lparr>op_id = 0, op_vaultId = fo_vaultId data, op_deviceId = deviceDbId,
              op_operationType = RENAME, op_filePath = fo_filePath data,
              op_previousHash = None, op_newHash = None,
              op_timestamp = None, op_status = ''pending''\<rparr> tx0;
           key = (fo_vaultId data, fo_filePath data);
           newKey = (fo_vaultId data, newPath);
           existing = files tx key;
           targetExists = files tx newKey;
           resolution = resolveRenameConflict (fo_vaultId data) (fo_filePath data) newPath
                          existing (Some (targetExists \<noteq> None))
       in
       if action resolution = Reject then Inl (INTERNAL_SERVER_ERROR (reason resolution))
       else
         (case existing of
            None \<Rightarrow> Inl (INTERNAL_SERVER_ERROR ''existingFile is null'')
          | Some f \<Rightarrow>
              (let updatedFile = f\<lparr>file_mtime := now, file_version := file_version f + 1\<rparr>;
                   tx1 = tx\<lparr>files := ((files tx)(key := None))(newKey \<mapsto> updatedFile)\<rparr>;
                   tx2 = syncOperation_set_newHash syncOp (file_hash updatedFile) tx1;
                   tx3 = syncOperation_set_status syncOp ''applied'' tx2;
                   result = operationResult True (file_version updatedFile)
                              (file_hash updatedFile)
               in Inr ((result,
                        [RenameFileCall (fo_vaultId data) (fo_filePath data) newPath]),
                       tx3)))) st"

text \<open>
  \<open>SyncService.processFileChange\<close>, the entry point: \<open>validateDevice\<close>, then the
  operation. \<open>errorHandler.handleError\<close> returns a \<open>SyncException\<close> as it is.
\<close>

definition processFileChange ::
  "(string \<Rightarrow> string) \<Rightarrow> nat \<Rightarrow> int \<Rightarrow> int \<Rightarrow> FileOperationData \<Rightarrow> store
     \<Rightarrow> (sync_error + FileOperationResult \<times> storage_call list) \<times> store" where
  "processFileChange sha maxFileSize now_r now_w data st =
     (case devices st (fo_deviceId data) of
        None \<Rightarrow> (Inl (DEVICE_NOT_FOUND (fo_deviceId data)), st)
      | Some device \<Rightarrow>
          (case fo_operationType data of
             DELETE \<Rightarrow> processDeleteOperation data (dev_id device) st
           | RENAME \<Rightarrow>
               (if truthy_string (fo_newPath data) then
                  processRenameOperation now_w data (the (fo_newPath data)) (dev_id device) st
                else
                  (Inl (INTERNAL_SERVER_ERROR ''New path required for rename operation''), st))
           | _ \<Rightarrow> processCreateUpdateOperation sha maxFileSize now_r now_w data
                    (dev_id device) st))"

section \<open>File lock manager (sync.service.ts, class FileLockService)\<close>

record FileLockInfo =
  li_id :: nat
  li_vaultId :: string
  li_fileId :: nat
  li_deviceId :: nat
  li_lockedAt :: int
  li_expiresAt :: int
  li_isExpired :: bool

record LockResult =
  lr_success :: bool
  lr_lock :: "FileLockInfo option"
  lr_reason :: "string option"
  lr_expiresAt :: "int option"

definition lockInfo :: "nat \<Rightarrow> FileLockRow \<Rightarrow> FileLockInfo" where
  "lockInfo fileId l =
     \<lparr>li_id = lock_id l, li_vaultId = lock_vaultId l, li_fileId = fileId,
      li_deviceId = lock_deviceId l, li_lockedAt = lockedAt l,
      li_expiresAt = expiresAt l, li_isExpired = False\<rparr>"

text \<open>
  \<open>FileLockService.requestFileLock\<close>, one transaction. \<open>lockExpiration\<close> is
  \<open>configService.fileLockExpiration\<close>; \<open>now\<close> is the clock read by
  \<open>const now = new Date()\<close> and \<open>now'\<close> the one read later by \<open>Date.now()\<close> for the
  expiry. \<open>tx.fileLock.create\<close> fails with \<open>P2002\<close> when the file already has a lock
  row; the source turns that into a denial.
\<close>

definition requestFileLock ::
  "int \<Rightarrow> int \<Rightarrow> int \<Rightarrow> string \<Rightarrow> string \<Rightarrow> string \<Rightarrow> store \<Rightarrow> LockResult \<times> store" where
  "requestFileLock lockExpiration now now' vaultId filePath deviceId st =
     (case devices st deviceId of
        None \<Rightarrow>
          (\<lparr>lr_success = False, lr_lock = None, lr_reason = Some ''Device not found'',
            lr_expiresAt = None\<rparr>, st)
      | Some device \<Rightarrow>
          (case files st (vaultId, filePath) of
             None \<Rightarrow>
               (\<lparr>lr_success = False, lr_lock = None, lr_reason = Some ''File not found'',
                 lr_expiresAt = None\<rparr>, st)
           | Some file \<Rightarrow>
               (let existingLock = fileLocks st (file_id file) in
                if existingLock \<noteq> None \<and> expiresAt (the existingLock) > now then
                  (if lock_deviceId (the existingLock) = dev_id device then
                     (let renewedLock = (the existingLock)
                            \<lparr>expiresAt := now' + lockExpiration, lockedAt := now\<rparr>
                      in (\<lparr>lr_success = True,
                           lr_lock = Some (lockInfo (file_id file) renewedLock),
                           lr_reason = None,
                           lr_expiresAt = Some (expiresAt renewedLock)\<rparr>,
                          st\<lparr>fileLocks := (fileLocks st)(file_id file \<mapsto> renewedLock)\<rparr>))
                   else
                     (\<lparr>lr_success = False, lr_lock = None,
                       lr_reason = Some ''File is locked by another device'',
                       lr_expiresAt = Some (expiresAt (the existingLock))\<rparr>, st))
                else
                  (let st1 = (if existingLock \<noteq> None
                              then st\<lparr>fileLocks := (fileLocks st)(file_id file := None)\<rparr>
                              else st)
                   in
                   if fileLocks st1 (file_id file) \<noteq> None then
                     (\<lparr>lr_success = False, lr_lock = None,
                       lr_reason = Some ''Concurrent lock attempt detected'',
                       lr_expiresAt = None\<rparr>, st1)
                   else
                     (let newLock = \<lparr>lock_id = nextId st1, lock_vaultId = vaultId,
                                      lock_deviceId = dev_id device, lockedAt = now,
                                      expiresAt = now' + lockExpiration\<rparr>
                      in (\<lparr>lr_success = True,
                           lr_lock = Some (lockInfo (file_id file) newLock),
                           lr_reason = None,
                           lr_expiresAt = Some (expiresAt newLock)\<rparr>,
                          st1\<lparr>fileLocks := (fileLocks st1)(file_id file \<mapsto> newLock),
                              nextId := Suc (nextId st1)\<rparr>))))))"

section \<open>Message handlers (message-handler.service.ts)\<close>

text \<open>
  A \<open>file-change\<close> frame as the plugin sends it (\<open>FileChangeMessage\<close> of the plugin's
  types.ts, with the optional \<open>previousHash\<close>); the server's interface of the same name
  has no \<open>previousHash\<close> member and the handler does not read it.
\<close>

record FileChangeMessage =
  fc_vaultId :: string
  fc_filePath :: string
  fc_content :: string
  fc_hash :: string
  fc_timestamp :: int
  fc_deviceId :: string
  fc_previousHash :: "string option"

record FileChangeResponse =
  fr_type :: string
  fr_success :: bool
  fr_filePath :: string
  fr_hash :: string
  fr_version :: nat

record FileChangeOutcome =
  broadcastMessage :: FileChangeMessage
  response :: FileChangeResponse

text \<open>
  \<open>MessageHandlerService.handleFileChange\<close>. The broadcast message has the members
  \<open>type, vaultId, filePath, content, hash, timestamp, deviceId\<close>. The second audit
  record is created outside the transaction of \<open>processFileChange\<close>, with the date
  \<open>new Date(timestamp)\<close>; when that is an Invalid Date the creation throws, after the
  transaction has been committed.
\<close>

definition handleFileChange ::
  "(string \<Rightarrow> string) \<Rightarrow> nat \<Rightarrow> int \<Rightarrow> int \<Rightarrow> FileChangeMessage \<Rightarrow> store
     \<Rightarrow> (sync_error + FileChangeOutcome \<times> storage_call list) \<times> store" where
  "handleFileChange sha maxFileSize now_r now_w message st =
     (let calculatedHash = sha (fc_content message) in
      if fc_hash message \<noteq> calculatedHash then
        (Inl (HASH_MISMATCH (fc_hash message) calculatedHash (fc_filePath message)), st)
      else
        (case processFileChange sha maxFileSize now_r now_w
                \<lparr>fo_vaultId = fc_vaultId message, fo_deviceId = fc_deviceId message,
                 fo_filePath = fc_filePath message, fo_content = fc_content message,
                 fo_operationType = UPDATE, fo_previousHash = None,
                 fo_clientTimestamp = Some (fc_timestamp message), fo_newPath = None\<rparr> st of
           (Inl e, st1) \<Rightarrow> (Inl e, st1)
         | (Inr (result, calls), st1) \<Rightarrow>
             (case devices st1 (fc_deviceId message) of
                None \<Rightarrow> (Inl (DEVICE_NOT_FOUND (fc_deviceId message)), st1)
              | Some device \<Rightarrow>
                  (case newDate (fc_timestamp message) of
                     None \<Rightarrow>
                       (Inl (DATABASE_ERROR ''Provided Date object is invalid''), st1)
                   | Some timestamp \<Rightarrow>
                       (let (syncOp, st2) = syncOperation_create
                              \<lparr>op_id = 0, op_vaultId = fc_vaultId message,
                               op_deviceId = dev_id device, op_operationType = UPDATE,
                               op_filePath = fc_filePath message, op_previousHash = None,
                               op_newHash = Some (fc_hash message),
                               op_timestamp = Some timestamp,
                               op_status = ''applied''\<rparr> st1
                        in (Inr (\<lparr>broadcastMessage = message\<lparr>fc_previousHash := None\<rparr>,
                                  response =
                                    \<lparr>fr_type = ''file-change-response'',
                                     fr_success = True,
                                     fr_filePath = fc_filePath message,
                                     fr_hash = r_hash result,
                                     fr_version = r_version result\<rparr>\<rparr>,
                                 calls),
                            st2))))))"

record FileDeleteMessage =
  fd_vaultId :: string
  fd_filePath :: string
  fd_deviceId :: string

record FileDeleteOutcome =
  fd_broadcast_type :: string
  fd_broadcast_vaultId :: string
  fd_broadcast_filePath :: string
  fd_broadcast_timestamp :: int
  fd_response_type :: string
  fd_response_success :: bool
  fd_response_filePath :: string

text \<open>
  \<open>MessageHandlerService.handleFileDelete\<close>; \<open>now\<close> is the clock read for the
  broadcast's timestamp (a deletion reads no other clock). The broadcast message and the
  response are flattened into one record.
\<close>

definition handleFileDelete ::
  "(string \<Rightarrow> string) \<Rightarrow> nat \<Rightarrow> int \<Rightarrow> FileDeleteMessage \<Rightarrow> store
     \<Rightarrow> (sync_error + FileDeleteOutcome \<times> storage_call list) \<times> store" where
  "handleFileDelete sha maxFileSize now message st =
     (case processFileChange sha maxFileSize now now
             \<lparr>fo_vaultId = fd_vaultId message, fo_deviceId = fd_deviceId message,
              fo_filePath = fd_filePath message, fo_content = [],
              fo_operationType = DELETE, fo_previousHash = None,
              fo_clientTimestamp = None, fo_newPath = None\<rparr> st of
        (Inl e, st1) \<Rightarrow> (Inl e, st1)
      | (Inr (result, calls), st1) \<Rightarrow>
          if r_success result then
            (Inr (\<lparr>fd_broadcast_type = ''file-delete'',
                   fd_broadcast_vaultId = fd_vaultId message,
                   fd_broadcast_filePath = fd_filePath message,
                   fd_broadcast_timestamp = now,
                   fd_response_type = ''file-delete-success'',
                   fd_response_success = True,
                   fd_response_filePath = fd_filePath message\<rparr>, calls), st1)
          else (Inl (INTERNAL_SERVER_ERROR ''File not found or failed to delete''), st1))"

record RequestLockMessage =
  rl_vaultId :: string
  rl_filePath :: string
  rl_deviceId :: string

record LockResponse =
  lk_type :: string
  lk_vaultId :: string
  lk_filePath :: string
  lk_deviceId :: "string option"
  lk_expiresAt :: "int option"
  lk_reason :: "string option"

text \<open>
  The test \<open>if (lockResult)\<close> of a value that may be \<open>null\<close>: an object is truthy.
\<close>

definition truthy_object :: "'a option \<Rightarrow> bool" where
  "truthy_object x = (x \<noteq> None)"

text \<open>
  \<open>MessageHandlerService.handleRequestLock\<close>. \<open>syncService.requestFileLock\<close> delegates
  to \<open>FileLockService.requestFileLock\<close>, which always returns a \<open>LockResult\<close> object.
  \<open>now''\<close> is the clock read by the handler for the expiry it reports (an ISO string
  in the source, its time value here).
\<close>

definition handleRequestLock ::
  "int \<Rightarrow> int \<Rightarrow> int \<Rightarrow> int \<Rightarrow> RequestLockMessage \<Rightarrow> store \<Rightarrow> LockResponse \<times> store" where
  "handleRequestLock lockExpiration now now' now'' message st =
     (let (lockResult, st') =
            requestFileLock lockExpiration now now'
              (rl_vaultId message) (rl_filePath message) (rl_deviceId message) st
      in
      if truthy_object (Some lockResult) then
        (\<lparr>lk_type = ''lock-acquired'', lk_vaultId = rl_vaultId message,
          lk_filePath = rl_filePath message, lk_deviceId = Some (rl_deviceId message),
          lk_expiresAt = Some (now'' + 30000), lk_reason = None\<rparr>, st')
      else
        (\<lparr>lk_type = ''lock-denied'', lk_vaultId = rl_vaultId message,
          lk_filePath = rl_filePath message, lk_deviceId = None,
          lk_expiresAt = None, lk_reason = Some ''File already locked''\<rparr>, st'))"

section \<open>Content store (storage.service.ts)\<close>

text \<open>
  The content store maps a vault id and a validated path to the text written there.
  \<open>path.resolve\<close> and the two containment checks that follow it are not modelled: a
  vault id and a path that pass the validations below resolve inside the storage root
  (POSIX paths are assumed for \<open>path.isAbsolute\<close>). \<open>fs_ok\<close> says whether the file
  system calls of a write (\<open>mkdir\<close>, \<open>writeFile\<close>) succeed. A thrown \<open>Error\<close> is its
  message; the two sizes in the message of the size check are left out, and the message
  of a file system error is not known.
\<close>

type_synonym disk = "string \<times> string \<rightharpoonup> string"

text \<open>\<open>VAULT_ID_PATTERN = /^[A-Za-z0-9_-]+$/\<close>.\<close>

definition validateVaultId :: "string \<Rightarrow> bool" where
  "validateVaultId vaultId =
     (vaultId \<noteq> [] \<and>
      list_all (\<lambda>c. c \<in> set
        ''ABCDEFGHIJKLMNOPQRSTUVWXYZabcdefghijklmnopqrstuvwxyz0123456789_-'') vaultId)"

text \<open>\<open>s.split(c)\<close> of JavaScript for a one-character separator.\<close>

fun split_on :: "char \<Rightarrow> string \<Rightarrow> string list" where
  "split_on c [] = [[]]"
| "split_on c (x # xs) =
     (if x = c then [] # split_on c xs
      else (case split_on c xs of [] \<Rightarrow> [[x]] | s # ss \<Rightarrow> (x # s) # ss))"

definition validateFilePath :: "string \<Rightarrow> string + string" where
  "validateFilePath filePath =
     (if filePath = [] \<or> CHR 0x00 \<in> set filePath then Inl ''Invalid filePath''
      else
        (let normalized = map (\<lambda>c. if c = CHR 0x5C then CHR ''/'' else c) filePath in
         if hd normalized = CHR ''/'' then Inl ''Absolute filePath is not allowed''
         else if list_ex (\<lambda>segment. segment = ''..'' \<or> segment = [])
                   (split_on (CHR ''/'') normalized)
         then Inl ''Path traversal detected''
         else Inr normalized))"

definition getFileStoragePath :: "string \<Rightarrow> string \<Rightarrow> string + string \<times> string" where
  "getFileStoragePath vaultId filePath =
     (if \<not> validateVaultId vaultId then Inl (''Invalid vaultId: '' @ vaultId)
      else (case validateFilePath filePath of
              Inl e \<Rightarrow> Inl e
            | Inr safeFilePath \<Rightarrow> Inr (vaultId, safeFilePath)))"

text \<open>\<open>StorageService.writeFile\<close>; a content string is its UTF-8 byte sequence.\<close>

definition writeFile ::
  "nat \<Rightarrow> bool \<Rightarrow> string \<Rightarrow> string \<Rightarrow> string \<Rightarrow> disk \<Rightarrow> string + disk" where
  "writeFile maxFileSize fs_ok vaultId filePath content dk =
     (if length content > maxFileSize then Inl ''File size exceeds maximum limit''
      else (case getFileStoragePath vaultId filePath of
              Inl e \<Rightarrow> Inl e
            | Inr fullPath \<Rightarrow>
                if fs_ok then Inr (dk(fullPath \<mapsto> content))
                else Inl ''file system error''))"

section \<open>Chunked transfer assembler (class ChunkSessionService)\<close>

text \<open>
  A \<open>Buffer\<close> is its byte sequence, a \<open>string\<close>. \<open>base64\<close> is \<open>buffer.toString('base64')\<close>
  of the Node library, the standard alphabet with padding.
\<close>

definition base64_digit :: "nat \<Rightarrow> char" where
  "base64_digit n =
     ''ABCDEFGHIJKLMNOPQRSTUVWXYZabcdefghijklmnopqrstuvwxyz0123456789+/'' ! n"

fun base64 :: "string \<Rightarrow> string" where
  "base64 [] = []"
| "base64 [a] =
     [base64_digit (of_char a div 4), base64_digit (of_char a mod 4 * 16),
      CHR ''='', CHR ''='']"
| "base64 [a, b] =
     [base64_digit (of_char a div 4),
      base64_digit (of_char a mod 4 * 16 + of_char b div 16),
      base64_digit (of_char b mod 16 * 4), CHR ''='']"
| "base64 (a # b # c # rest) =
     [base64_digit (of_char a div 4),
      base64_digit (of_char a mod 4 * 16 + of_char b div 16),
      base64_digit (of_char b mod 16 * 4 + of_char c div 64),
      base64_digit (of_char c mod 64)] @ base64 rest"

record ChunkSession =
  cs_filePath :: string
  cs_fileHash :: string
  cs_fileSize :: nat
  cs_totalChunks :: nat
  receivedChunks :: "nat \<rightharpoonup> string"
  chunkHashes :: "nat \<rightharpoonup> string"
  cs_startTime :: int
  cs_clientId :: string
  cs_vaultId :: string
  cs_lastActivity :: int

type_synonym chunkSessions = "string \<rightharpoonup> ChunkSession"

text \<open>\<open>createSession\<close>; \<open>now\<close> and \<open>now'\<close> are its two clock reads.\<close>

definition createSession ::
  "int \<Rightarrow> int \<Rightarrow> string \<Rightarrow> string \<Rightarrow> string \<Rightarrow> string \<Rightarrow> nat \<Rightarrow> nat \<Rightarrow> string
     \<Rightarrow> chunkSessions \<Rightarrow> chunkSessions" where
  "createSession now now' sessionId vaultId filePath fileHash fileSize totalChunks clientId
     sessions =
     sessions(sessionId \<mapsto>
       \<lparr>cs_filePath = filePath, cs_fileHash = fileHash, cs_fileSize = fileSize,
        cs_totalChunks = totalChunks, receivedChunks = Map.empty, chunkHashes = Map.empty,
        cs_startTime = now, cs_clientId = clientId, cs_vaultId = vaultId,
        cs_lastActivity = now'\<rparr>)"

definition buildSessionId :: "string \<Rightarrow> string \<Rightarrow> string \<Rightarrow> string" where
  "buildSessionId vaultId clientId filePath = vaultId @ '':'' @ clientId @ '':'' @ filePath"

record StoreChunkResult =
  sc_success :: bool
  sc_message :: "string option"

text \<open>
  \<open>storeChunk\<close>; \<open>sha\<close> is the SHA-256 hex digest of the \<open>crypto\<close> library and \<open>now\<close>
  the clock read for \<open>lastActivity\<close>.
\<close>

definition storeChunk ::
  "(string \<Rightarrow> string) \<Rightarrow> int \<Rightarrow> string \<Rightarrow> nat \<Rightarrow> string \<Rightarrow> string \<Rightarrow> chunkSessions
     \<Rightarrow> StoreChunkResult \<times> chunkSessions" where
  "storeChunk sha now sessionId chunkIndex chunkData chunkHash sessions =
     (case sessions sessionId of
        None \<Rightarrow> (\<lparr>sc_success = False, sc_message = Some ''Session not found''\<rparr>, sessions)
      | Some session \<Rightarrow>
          if sha chunkData \<noteq> chunkHash then
            (\<lparr>sc_success = False, sc_message = Some ''Chunk hash mismatch''\<rparr>, sessions)
          else
            (\<lparr>sc_success = True, sc_message = None\<rparr>,
             sessions(sessionId \<mapsto> session
               \<lparr>receivedChunks := (receivedChunks session)(chunkIndex \<mapsto> chunkData),
                chunkHashes := (chunkHashes session)(chunkIndex \<mapsto> chunkHash),
                cs_lastActivity := now\<rparr>)))"

text \<open>The messages of a failed completion; the two numbers are the sizes in the text.\<close>

datatype upload_message =
    Session_not_found
  | Missing_chunks
  | File_size_mismatch nat nat
  | Final_file_hash_verification_failed
  | Assembly_failed string

record CompleteUploadResult =
  cu_success :: bool
  cu_message :: "upload_message option"
  cu_missingChunks :: "nat list option"
  cu_fileHash :: "string option"
  cu_fileSize :: "nat option"

definition uploadFailure :: "upload_message \<Rightarrow> CompleteUploadResult" where
  "uploadFailure m =
     \<lparr>cu_success = False, cu_message = Some m, cu_missingChunks = None,
      cu_fileHash = None, cu_fileSize = None\<rparr>"

text \<open>The first loop of \<open>completeUpload\<close>: the indices below the count with no chunk.\<close>

definition missingChunks :: "ChunkSession \<Rightarrow> nat list" where
  "missingChunks session =
     filter (\<lambda>i. receivedChunks session i = None) [0..<cs_totalChunks session]"

text \<open>
  The second loop and \<open>Buffer.concat\<close>; it runs only when no chunk is missing, where
  \<open>receivedChunks.get(i)!\<close> is a chunk.
\<close>

definition finalBuffer :: "ChunkSession \<Rightarrow> string" where
  "finalBuffer session =
     concat (map (\<lambda>i. case receivedChunks session i of Some chunk \<Rightarrow> chunk | None \<Rightarrow> [])
       [0..<cs_totalChunks session])"

text \<open>
  \<open>completeUpload\<close>. An error thrown by \<open>storage.writeFile\<close> is caught and reported as
  \<open>Assembly failed\<close>.
\<close>

definition completeUpload ::
  "(string \<Rightarrow> string) \<Rightarrow> nat \<Rightarrow> bool \<Rightarrow> string \<Rightarrow> chunkSessions \<Rightarrow> disk
     \<Rightarrow> CompleteUploadResult \<times> chunkSessions \<times> disk" where
  "completeUpload sha maxFileSize fs_ok sessionId sessions dk =
     (case sessions sessionId of
        None \<Rightarrow> (uploadFailure Session_not_found, sessions, dk)
      | Some session \<Rightarrow>
          if missingChunks session \<noteq> [] then
            ((uploadFailure Missing_chunks)
               \<lparr>cu_missingChunks := Some (missingChunks session)\<rparr>, sessions, dk)
          else if length (finalBuffer session) \<noteq> cs_fileSize session then
            (uploadFailure
               (File_size_mismatch (cs_fileSize session) (length (finalBuffer session))),
             sessions, dk)
          else if sha (finalBuffer session) \<noteq> cs_fileHash session then
            (uploadFailure Final_file_hash_verification_failed, sessions, dk)
          else
            (case writeFile maxFileSize fs_ok (cs_vaultId session) (cs_filePath session)
                    (base64 (finalBuffer session)) dk of
               Inl e \<Rightarrow> (uploadFailure (Assembly_failed e), sessions, dk)
             | Inr dk' \<Rightarrow>
                 (\<lparr>cu_success = True, cu_message = None, cu_missingChunks = None,
                   cu_fileHash = Some (sha (finalBuffer session)),
                   cu_fileSize = Some (length (finalBuffer session))\<rparr>,
                  sessions(sessionId := None), dk')))"

section \<open>Example states\<close>

text \<open>
  The digest function is a parameter of the model, and every theorem below that has it
  as a variable holds for each digest function, SHA-256 among them. The concrete
  examples need one digest: a stand-in that is injective, as SHA-256 is taken to be;
  only the equality of digests matters in the code.
\<close>

definition example_digest :: "string \<Rightarrow> string" where
  "example_digest content = ''digest-of-'' @ content"

text \<open>
  A store with the devices \<open>D1\<close> and \<open>D2\<close>, the file \<open>note.md\<close> at version 2 and the file
  \<open>shared.md\<close>, on which \<open>D1\<close> holds a lock that expires at time 31000.
\<close>

definition example_store :: store where
  "example_store =
     \<lparr>devices =
        [''D1'' \<mapsto> \<lparr>dev_id = 1, dev_vaultId = ''vault1'', dev_deviceName = ''laptop''\<rparr>,
         ''D2'' \<mapsto> \<lparr>dev_id = 2, dev_vaultId = ''vault1'', dev_deviceName = ''phone''\<rparr>],
      files =
        [(''vault1'', ''note.md'') \<mapsto>
           \<lparr>file_id = 10, file_hash = example_digest ''v2'', file_size = 2,
            file_mtime = 1000, file_version = 2\<rparr>,
         (''vault1'', ''shared.md'') \<mapsto>
           \<lparr>file_id = 11, file_hash = example_digest ''s1'', file_size = 2,
            file_mtime = 1000, file_version = 1\<rparr>],
      fileLocks =
        [11 \<mapsto> \<lparr>lock_id = 20, lock_vaultId = ''vault1'', lock_deviceId = 1,
                 lockedAt = 1000, expiresAt = 31000\<rparr>],
      syncOperations = [],
      nextId = 21\<rparr>"

text \<open>
  A chunk session for a file of the three chunks \<open>ab\<close>, \<open>cd\<close> and \<open>ef\<close>, as
  \<open>createSession\<close> and three calls of \<open>storeChunk\<close> leave it, with the vault id, the
  declared size and the declared digest as arguments.
\<close>

definition example_session :: "string \<Rightarrow> nat \<Rightarrow> string \<Rightarrow> ChunkSession" where
  "example_session vaultId fileSize fileHash =
     \<lparr>cs_filePath = ''big.bin'', cs_fileHash = fileHash, cs_fileSize = fileSize,
      cs_totalChunks = 3,
      receivedChunks = [0 \<mapsto> ''ab'', 2 \<mapsto> ''ef'', 1 \<mapsto> ''cd''],
      chunkHashes = [0 \<mapsto> example_digest ''ab'', 2 \<mapsto> example_digest ''ef'',
                     1 \<mapsto> example_digest ''cd''],
      cs_startTime = 1000, cs_clientId = ''D1'', cs_vaultId = vaultId,
      cs_lastActivity = 1003\<rparr>"

section \<open>Properties of the conflict resolution engine\<close>

text \<open>
  C1, as amended. When the current record exists and the claimed prior hash is supplied,
  is not the empty string and differs from the stored hash, the result is a reject of
  type \<open>hash_mismatch\<close> that carries the current version and the current hash, whatever
  the claimed content hash, the claimed timestamp and the clock are.
\<close>

theorem resolveFileConflict_hash_mismatch:
  assumes "existingFile d = Some f"
    and "previousHash d = Some p"
    and "p \<noteq> []"
    and "ef_hash f \<noteq> p"
  shows "action (resolveFileConflict now d) = Reject
       \<and> conflictType (resolveFileConflict now d) = Some ''hash_mismatch''
       \<and> currentVersion (resolveFileConflict now d) = Some (ef_version f)
       \<and> currentHash (resolveFileConflict now d) = Some (ef_hash f)"
  using assms
  by (simp add: resolveFileConflict_def mkResolution_def truthy_string_def Let_def)

theorem resolveFileConflict_hash_mismatch_witness:
  "action (resolveFileConflict 5000
     \<lparr>cd_vaultId = ''v'', cd_filePath = ''note.md'', clientContent = ''c'',
      clientHash = ''H3'', clientTimestamp = Some 9000, previousHash = Some ''H1'',
      existingFile = Some \<lparr>ef_id = 1, ef_hash = ''H2'', ef_version = 2,
                             ef_mtime = 1000, ef_size = 1\<rparr>\<rparr>) = Reject"
  using resolveFileConflict_hash_mismatch
    [of "\<lparr>cd_vaultId = ''v'', cd_filePath = ''note.md'', clientContent = ''c'',
          clientHash = ''H3'', clientTimestamp = Some 9000, previousHash = Some ''H1'',
          existingFile = Some \<lparr>ef_id = 1, ef_hash = ''H2'', ef_version = 2,
                                 ef_mtime = 1000, ef_size = 1\<rparr>\<rparr>"
        "\<lparr>ef_id = 1, ef_hash = ''H2'', ef_version = 2, ef_mtime = 1000, ef_size = 1\<rparr>"
        "''H1''" 5000]
  by simp

text \<open>
  C1 as stated fails when the prior hash that is supplied is the empty string: the test
  \<open>previousHash && \<dots>\<close> of the source treats it as absent, and a newer write with
  different content is accepted although the stored hash \<open>H2\<close> differs from it.
\<close>

theorem resolveFileConflict_empty_prior_hash_accepted:
  "action (resolveFileConflict 5000
     \<lparr>cd_vaultId = ''v'', cd_filePath = ''note.md'', clientContent = ''c'',
      clientHash = ''H3'', clientTimestamp = Some 9000, previousHash = Some [],
      existingFile = Some \<lparr>ef_id = 1, ef_hash = ''H2'', ef_version = 2,
                             ef_mtime = 1000, ef_size = 1\<rparr>\<rparr>) = Accept"
  by (simp add: resolveFileConflict_def mkResolution_def truthy_string_def
      truthy_number_def claimedMtime_def newDate_def date_gt_def date_le_def)

text \<open>
  C10, as amended. For a write that reaches the resolver with an existing record and a
  timestamp that is absent or zero, the claimed time is the server clock. So, when the
  stored modification time is before the clock: a same-content write whose prior hash is
  absent or equal to the stored hash is \<open>update_mtime_only\<close>; and a differing-content
  write without a prior hash is accepted, not rejected as \<open>older_timestamp\<close>.
\<close>

theorem resolveFileConflict_no_timestamp:
  assumes "existingFile d = Some f"
    and "clientTimestamp d = None \<or> clientTimestamp d = Some 0"
  shows "claimedMtime now (clientTimestamp d) = Some now
       \<and> (ef_mtime f < now \<and> clientHash d = ef_hash f
            \<and> (previousHash d = None \<or> previousHash d = Some (ef_hash f))
          \<longrightarrow> action (resolveFileConflict now d) = Update_mtime_only)
       \<and> (ef_mtime f < now \<and> clientHash d \<noteq> ef_hash f \<and> previousHash d = None
          \<longrightarrow> action (resolveFileConflict now d) = Accept
              \<and> conflictType (resolveFileConflict now d) \<noteq> Some ''older_timestamp'')"
  using assms
  by (auto simp add: resolveFileConflict_def mkResolution_def truthy_string_def
      truthy_number_def claimedMtime_def newDate_def date_gt_def date_le_def Let_def split: option.splits)

theorem resolveFileConflict_no_timestamp_witness:
  "action (resolveFileConflict 5000
     \<lparr>cd_vaultId = ''v'', cd_filePath = ''note.md'', clientContent = ''c'',
      clientHash = ''H2'', clientTimestamp = None, previousHash = None,
      existingFile = Some \<lparr>ef_id = 1, ef_hash = ''H2'', ef_version = 2,
                             ef_mtime = 1000, ef_size = 1\<rparr>\<rparr>) = Update_mtime_only
   \<and> action (resolveFileConflict 5000
     \<lparr>cd_vaultId = ''v'', cd_filePath = ''note.md'', clientContent = ''c'',
      clientHash = ''H3'', clientTimestamp = Some 0, previousHash = None,
      existingFile = Some \<lparr>ef_id = 1, ef_hash = ''H2'', ef_version = 2,
                             ef_mtime = 1000, ef_size = 1\<rparr>\<rparr>) = Accept"
  using resolveFileConflict_no_timestamp
    [of "\<lparr>cd_vaultId = ''v'', cd_filePath = ''note.md'', clientContent = ''c'',
          clientHash = ''H2'', clientTimestamp = None, previousHash = None,
          existingFile = Some \<lparr>ef_id = 1, ef_hash = ''H2'', ef_version = 2,
                                 ef_mtime = 1000, ef_size = 1\<rparr>\<rparr>"
        "\<lparr>ef_id = 1, ef_hash = ''H2'', ef_version = 2, ef_mtime = 1000, ef_size = 1\<rparr>"
        5000]
    resolveFileConflict_no_timestamp
    [of "\<lparr>cd_vaultId = ''v'', cd_filePath = ''note.md'', clientContent = ''c'',
          clientHash = ''H3'', clientTimestamp = Some 0, previousHash = None,
          existingFile = Some \<lparr>ef_id = 1, ef_hash = ''H2'', ef_version = 2,
                                 ef_mtime = 1000, ef_size = 1\<rparr>\<rparr>"
        "\<lparr>ef_id = 1, ef_hash = ''H2'', ef_version = 2, ef_mtime = 1000, ef_size = 1\<rparr>"
        5000]
  by simp

text \<open>
  C10 as stated fails for a same-content write without a timestamp whose prior hash is
  stale: the hash check comes first and rejects it as \<open>hash_mismatch\<close>, although the
  stored modification time is before the clock.
\<close>

theorem resolveFileConflict_no_timestamp_stale_prior_hash:
  "action (resolveFileConflict 5000
     \<lparr>cd_vaultId = ''v'', cd_filePath = ''note.md'', clientContent = ''c'',
      clientHash = ''H2'', clientTimestamp = None, previousHash = Some ''H1'',
      existingFile = Some \<lparr>ef_id = 1, ef_hash = ''H2'', ef_version = 2,
                             ef_mtime = 1000, ef_size = 1\<rparr>\<rparr>) = Reject
   \<and> conflictType (resolveFileConflict 5000
     \<lparr>cd_vaultId = ''v'', cd_filePath = ''note.md'', clientContent = ''c'',
      clientHash = ''H2'', clientTimestamp = None, previousHash = Some ''H1'',
      existingFile = Some \<lparr>ef_id = 1, ef_hash = ''H2'', ef_version = 2,
                             ef_mtime = 1000, ef_size = 1\<rparr>\<rparr>) = Some ''hash_mismatch''"
  by (simp add: resolveFileConflict_def mkResolution_def truthy_string_def
      truthy_number_def claimedMtime_def newDate_def date_gt_def date_le_def)

section \<open>Properties of the sync service\<close>











section \<open>Properties of the file lock manager\<close>

text \<open>
  C4, as amended. For a lock request by a registered device on an existing file that has
  a lock row: when the lock has not expired and is owned by the requesting device, the
  request succeeds and renews the row in place (acquired time := the clock, expiry := the
  clock read for it + lease duration); when it has not expired and is owned by another
  device, the request fails, reports the expiry of the held lock and changes nothing;
  when it has expired, the row is replaced by a fresh row (a new id) of the requesting
  device with expiry = clock + lease duration, and the request succeeds.
\<close>

theorem requestFileLock_registered_device:
  assumes "devices st deviceId = Some device"
    and "files st (vaultId, filePath) = Some file"
    and "fileLocks st (file_id file) = Some l"
  shows "(expiresAt l > now \<and> lock_deviceId l = dev_id device \<longrightarrow>
            requestFileLock lockExpiration now now' vaultId filePath deviceId st =
              (\<lparr>lr_success = True,
                lr_lock = Some (lockInfo (file_id file)
                            (l\<lparr>expiresAt := now' + lockExpiration, lockedAt := now\<rparr>)),
                lr_reason = None,
                lr_expiresAt = Some (now' + lockExpiration)\<rparr>,
               st\<lparr>fileLocks := (fileLocks st)(file_id file \<mapsto>
                     l\<lparr>expiresAt := now' + lockExpiration, lockedAt := now\<rparr>)\<rparr>))
       \<and> (expiresAt l > now \<and> lock_deviceId l \<noteq> dev_id device \<longrightarrow>
            requestFileLock lockExpiration now now' vaultId filePath deviceId st =
              (\<lparr>lr_success = False, lr_lock = None,
                lr_reason = Some ''File is locked by another device'',
                lr_expiresAt = Some (expiresAt l)\<rparr>, st))
       \<and> (expiresAt l \<le> now \<longrightarrow>
            lr_success (fst (requestFileLock lockExpiration now now' vaultId filePath
                               deviceId st))
            \<and> lr_expiresAt (fst (requestFileLock lockExpiration now now' vaultId filePath
                               deviceId st)) = Some (now' + lockExpiration)
            \<and> fileLocks (snd (requestFileLock lockExpiration now now' vaultId filePath
                               deviceId st)) =
                (fileLocks st)(file_id file \<mapsto>
                   \<lparr>lock_id = nextId st, lock_vaultId = vaultId,
                    lock_deviceId = dev_id device, lockedAt = now,
                    expiresAt = now' + lockExpiration\<rparr>))"
  using assms
  by (simp add: requestFileLock_def Let_def)

theorem requestFileLock_registered_device_witness:
  "lr_success (fst (requestFileLock 30000 2000 2001 ''vault1'' ''shared.md'' ''D1''
                      example_store))
   \<and> lr_expiresAt (fst (requestFileLock 30000 2000 2001 ''vault1'' ''shared.md'' ''D1''
                      example_store)) = Some 32001
   \<and> map_option lock_id
        (fileLocks (snd (requestFileLock 30000 2000 2001 ''vault1'' ''shared.md'' ''D1''
                      example_store)) 11) = Some 20
   \<and> \<not> lr_success (fst (requestFileLock 30000 2000 2001 ''vault1'' ''shared.md'' ''D2''
                      example_store))
   \<and> snd (requestFileLock 30000 2000 2001 ''vault1'' ''shared.md'' ''D2'' example_store)
       = example_store
   \<and> lr_success (fst (requestFileLock 30000 40000 40001 ''vault1'' ''shared.md'' ''D2''
                      example_store))
   \<and> fileLocks (snd (requestFileLock 30000 40000 40001 ''vault1'' ''shared.md'' ''D2''
                      example_store)) 11
       = Some \<lparr>lock_id = 21, lock_vaultId = ''vault1'', lock_deviceId = 2,
               lockedAt = 40000, expiresAt = 70001\<rparr>"
  using
    requestFileLock_registered_device
      [of example_store "''D1''"
          "\<lparr>dev_id = 1, dev_vaultId = ''vault1'', dev_deviceName = ''laptop''\<rparr>"
          "''vault1''" "''shared.md''"
          "\<lparr>file_id = 11, file_hash = example_digest ''s1'', file_size = 2,
            file_mtime = 1000, file_version = 1\<rparr>"
          "\<lparr>lock_id = 20, lock_vaultId = ''vault1'', lock_deviceId = 1,
            lockedAt = 1000, expiresAt = 31000\<rparr>" 2000 30000 2001]
    requestFileLock_registered_device
      [of example_store "''D2''"
          "\<lparr>dev_id = 2, dev_vaultId = ''vault1'', dev_deviceName = ''phone''\<rparr>"
          "''vault1''" "''shared.md''"
          "\<lparr>file_id = 11, file_hash = example_digest ''s1'', file_size = 2,
            file_mtime = 1000, file_version = 1\<rparr>"
          "\<lparr>lock_id = 20, lock_vaultId = ''vault1'', lock_deviceId = 1,
            lockedAt = 1000, expiresAt = 31000\<rparr>" 2000 30000 2001]
    requestFileLock_registered_device
      [of example_store "''D2''"
          "\<lparr>dev_id = 2, dev_vaultId = ''vault1'', dev_deviceName = ''phone''\<rparr>"
          "''vault1''" "''shared.md''"
          "\<lparr>file_id = 11, file_hash = example_digest ''s1'', file_size = 2,
            file_mtime = 1000, file_version = 1\<rparr>"
          "\<lparr>lock_id = 20, lock_vaultId = ''vault1'', lock_deviceId = 1,
            lockedAt = 1000, expiresAt = 31000\<rparr>" 40000 30000 40001]
  by (simp add: example_store_def)

text \<open>
  C4 as stated fails for a device that is not registered: at time 40000 the only lock row
  of \<open>shared.md\<close> has expired (at 31000), and the request of the unknown device \<open>D9\<close>
  is answered \<open>Device not found\<close> before the file is looked up; the expired row is not
  deleted and no lock is inserted.
\<close>

theorem requestFileLock_unregistered_device_expired_lock:
  "requestFileLock 30000 40000 40001 ''vault1'' ''shared.md'' ''D9'' example_store
     = (\<lparr>lr_success = False, lr_lock = None, lr_reason = Some ''Device not found'',
         lr_expiresAt = None\<rparr>, example_store)
   \<and> map_option expiresAt (fileLocks example_store 11) = Some 31000
   \<and> files example_store (''vault1'', ''shared.md'') \<noteq> None"
  by (simp add: requestFileLock_def example_store_def)

section \<open>Properties of the chunked transfer assembler\<close>

text \<open>
  The example session is the one that a transfer start and the chunks 0, 2 and 1, in
  this order, produce.
\<close>

lemma example_session_reached:
  "snd (storeChunk example_digest 1003 (buildSessionId ''vault1'' ''D1'' ''big.bin'') 1 ''cd''
          (example_digest ''cd'')
     (snd (storeChunk example_digest 1002 (buildSessionId ''vault1'' ''D1'' ''big.bin'') 2
             ''ef'' (example_digest ''ef'')
        (snd (storeChunk example_digest 1001 (buildSessionId ''vault1'' ''D1'' ''big.bin'') 0
                ''ab'' (example_digest ''ab'')
           (createSession 1000 1000 (buildSessionId ''vault1'' ''D1'' ''big.bin'') ''vault1''
              ''big.bin'' (example_digest ''abcdef'') 6 3 ''D1'' Map.empty))))))
   = [''vault1:D1:big.bin'' \<mapsto> example_session ''vault1'' 6 (example_digest ''abcdef'')]"
  by (simp add: storeChunk_def createSession_def buildSessionId_def example_session_def)

text \<open>
  The missing indices that \<open>completeUpload\<close> reports, and the assembled buffer of
  a session with every chunk.
\<close>

lemma missingChunks_set:
  "set (missingChunks s) = {i. i < cs_totalChunks s \<and> receivedChunks s i = None}"
  by (auto simp add: missingChunks_def)

lemma missingChunks_empty:
  "missingChunks s = [] \<longleftrightarrow> (\<forall>i<cs_totalChunks s. receivedChunks s i \<noteq> None)"
  by (auto simp add: missingChunks_def filter_empty_conv)

lemma finalBuffer_complete:
  assumes "\<forall>i<cs_totalChunks s. receivedChunks s i \<noteq> None"
  shows "finalBuffer s = concat (map (\<lambda>i. the (receivedChunks s i)) [0..<cs_totalChunks s])"
proof -
  have "map (\<lambda>i. case receivedChunks s i of Some chunk \<Rightarrow> chunk | None \<Rightarrow> [])
          [0..<cs_totalChunks s]
        = map (\<lambda>i. the (receivedChunks s i)) [0..<cs_totalChunks s]"
    using assms by (intro map_cong) auto
  then show ?thesis unfolding finalBuffer_def by (rule arg_cong)
qed

text \<open>A stored chunk has the digest that is recorded for it.\<close>

lemma storeChunk_keeps_chunks_verified:
  assumes "sessions sessionId = Some s"
    and "\<forall>i d. receivedChunks s i = Some d \<longrightarrow> chunkHashes s i = Some (sha d)"
    and "snd (storeChunk sha now sessionId chunkIndex chunkData chunkHash sessions) sessionId
           = Some s'"
    and "receivedChunks s' i = Some d"
  shows "chunkHashes s' i = Some (sha d)"
  using assms
  by (auto simp add: storeChunk_def split: if_splits)

text \<open>
  C2, as amended. For a chunk session with declared chunk count \<open>n\<close>, total size \<open>S\<close>
  and total hash \<open>H\<close>, completion succeeds if and only if every chunk index below \<open>n\<close>
  has been stored, the concatenation of the chunks in index order has byte length \<open>S\<close>,
  its hash equals \<open>H\<close>, and the write of the assembled blob (as base64 text) to the
  content store succeeds. When an index is missing, completion fails and the response
  names exactly the set of missing indices. A chunk is stored only when its own hash
  check passes: \<open>storeChunk\<close> succeeds if and only if the digest of the payload equals
  the chunk hash sent with it, a failed check leaves the sessions as they were, and when
  every chunk of the session has the digest that is recorded for it, this is so after
  \<open>storeChunk\<close> as well.
\<close>

theorem completeUpload_succeeds_iff:
  assumes "sessions sessionId = Some s"
  shows "(cu_success (fst (completeUpload sha maxFileSize fs_ok sessionId sessions dk)) \<longleftrightarrow>
            (\<forall>i<cs_totalChunks s. receivedChunks s i \<noteq> None)
          \<and> length (concat (map (\<lambda>i. the (receivedChunks s i)) [0..<cs_totalChunks s]))
              = cs_fileSize s
          \<and> sha (concat (map (\<lambda>i. the (receivedChunks s i)) [0..<cs_totalChunks s]))
              = cs_fileHash s
          \<and> (\<exists>dk'. writeFile maxFileSize fs_ok (cs_vaultId s) (cs_filePath s)
                      (base64 (concat (map (\<lambda>i. the (receivedChunks s i))
                                         [0..<cs_totalChunks s]))) dk = Inr dk'))
       \<and> ((\<exists>i<cs_totalChunks s. receivedChunks s i = None) \<longrightarrow>
            \<not> cu_success (fst (completeUpload sha maxFileSize fs_ok sessionId sessions dk))
          \<and> (\<exists>ms. cu_missingChunks
                      (fst (completeUpload sha maxFileSize fs_ok sessionId sessions dk))
                    = Some ms
                  \<and> set ms = {i. i < cs_totalChunks s \<and> receivedChunks s i = None}))
       \<and> (sc_success (fst (storeChunk sha now sessionId chunkIndex chunkData chunkHash
                             sessions)) \<longleftrightarrow> sha chunkData = chunkHash)
       \<and> snd (storeChunk sha now sessionId chunkIndex chunkData chunkHash sessions) =
           (if sha chunkData = chunkHash
            then sessions(sessionId \<mapsto> s
                   \<lparr>receivedChunks := (receivedChunks s)(chunkIndex \<mapsto> chunkData),
                    chunkHashes := (chunkHashes s)(chunkIndex \<mapsto> chunkHash),
                    cs_lastActivity := now\<rparr>)
            else sessions)
       \<and> ((\<forall>i d. receivedChunks s i = Some d \<longrightarrow> chunkHashes s i = Some (sha d)) \<longrightarrow>
            (\<forall>s' i d.
               snd (storeChunk sha now sessionId chunkIndex chunkData chunkHash sessions)
                 sessionId = Some s'
               \<and> receivedChunks s' i = Some d \<longrightarrow> chunkHashes s' i = Some (sha d)))"
proof -
  let ?r = "fst (completeUpload sha maxFileSize fs_ok sessionId sessions dk)"
  let ?all = "\<forall>i<cs_totalChunks s. receivedChunks s i \<noteq> None"
  have store: "(sc_success (fst (storeChunk sha now sessionId chunkIndex chunkData chunkHash
                             sessions)) \<longleftrightarrow> sha chunkData = chunkHash)
       \<and> snd (storeChunk sha now sessionId chunkIndex chunkData chunkHash sessions) =
           (if sha chunkData = chunkHash
            then sessions(sessionId \<mapsto> s
                   \<lparr>receivedChunks := (receivedChunks s)(chunkIndex \<mapsto> chunkData),
                    chunkHashes := (chunkHashes s)(chunkIndex \<mapsto> chunkHash),
                    cs_lastActivity := now\<rparr>)
            else sessions)"
    using assms by (simp add: storeChunk_def)
  have verified: "(\<forall>i d. receivedChunks s i = Some d \<longrightarrow> chunkHashes s i = Some (sha d)) \<longrightarrow>
            (\<forall>s' i d.
               snd (storeChunk sha now sessionId chunkIndex chunkData chunkHash sessions)
                 sessionId = Some s'
               \<and> receivedChunks s' i = Some d \<longrightarrow> chunkHashes s' i = Some (sha d))"
    using storeChunk_keeps_chunks_verified
      [where sessions = sessions and sessionId = sessionId and s = s and sha = sha
         and now = now and chunkIndex = chunkIndex and chunkData = chunkData
         and chunkHash = chunkHash]
      assms
    by blast
  have missing: "(\<exists>i<cs_totalChunks s. receivedChunks s i = None) \<longrightarrow>
            \<not> cu_success ?r
          \<and> (\<exists>ms. cu_missingChunks ?r = Some ms
                  \<and> set ms = {i. i < cs_totalChunks s \<and> receivedChunks s i = None})"
  proof
    assume "\<exists>i<cs_totalChunks s. receivedChunks s i = None"
    then have ne: "missingChunks s \<noteq> []"
      by (auto simp add: missingChunks_empty)
    then have "?r = (uploadFailure Missing_chunks)\<lparr>cu_missingChunks := Some (missingChunks s)\<rparr>"
      using assms by (simp add: completeUpload_def)
    then show "\<not> cu_success ?r
          \<and> (\<exists>ms. cu_missingChunks ?r = Some ms
                  \<and> set ms = {i. i < cs_totalChunks s \<and> receivedChunks s i = None})"
      by (simp add: uploadFailure_def missingChunks_set)
  qed
  have iff: "cu_success ?r \<longleftrightarrow>
            ?all
          \<and> length (concat (map (\<lambda>i. the (receivedChunks s i)) [0..<cs_totalChunks s]))
              = cs_fileSize s
          \<and> sha (concat (map (\<lambda>i. the (receivedChunks s i)) [0..<cs_totalChunks s]))
              = cs_fileHash s
          \<and> (\<exists>dk'. writeFile maxFileSize fs_ok (cs_vaultId s) (cs_filePath s)
                      (base64 (concat (map (\<lambda>i. the (receivedChunks s i))
                                         [0..<cs_totalChunks s]))) dk = Inr dk')"
  proof (cases ?all)
    case True
    then have fb: "finalBuffer s
        = concat (map (\<lambda>i. the (receivedChunks s i)) [0..<cs_totalChunks s])"
      by (rule finalBuffer_complete)
    from True have "missingChunks s = []" by (simp add: missingChunks_empty)
    then show ?thesis
      using assms True
      by (auto simp add: completeUpload_def uploadFailure_def fb split: sum.splits)
  next
    case False
    then have "missingChunks s \<noteq> []" by (simp add: missingChunks_empty)
    then have "\<not> cu_success ?r"
      using assms by (simp add: completeUpload_def uploadFailure_def)
    with False show ?thesis by blast
  qed
  show ?thesis using iff missing store verified by blast
qed

theorem completeUpload_succeeds_iff_witness:
  "cu_success (fst (completeUpload example_digest 52428800 True ''vault1:D1:big.bin''
       [''vault1:D1:big.bin'' \<mapsto> example_session ''vault1'' 6 (example_digest ''abcdef'')]
       Map.empty))
   \<and> \<not> cu_success (fst (completeUpload example_digest 52428800 True ''vault1:D1:big.bin''
       [''vault1:D1:big.bin'' \<mapsto>
          (example_session ''vault1'' 6 (example_digest ''abcdef''))
            \<lparr>receivedChunks := [0 \<mapsto> ''ab'', 2 \<mapsto> ''ef'']\<rparr>]
       Map.empty))
   \<and> cu_missingChunks (fst (completeUpload example_digest 52428800 True
       ''vault1:D1:big.bin''
       [''vault1:D1:big.bin'' \<mapsto>
          (example_session ''vault1'' 6 (example_digest ''abcdef''))
            \<lparr>receivedChunks := [0 \<mapsto> ''ab'', 2 \<mapsto> ''ef'']\<rparr>]
       Map.empty)) = Some [1]
   \<and> sc_success (fst (storeChunk example_digest 1004 ''vault1:D1:big.bin'' 1 ''cd''
       (example_digest ''cd'')
       [''vault1:D1:big.bin'' \<mapsto>
          (example_session ''vault1'' 6 (example_digest ''abcdef''))
            \<lparr>receivedChunks := [0 \<mapsto> ''ab'', 2 \<mapsto> ''ef'']\<rparr>]))"
  using
    completeUpload_succeeds_iff
      [of "[''vault1:D1:big.bin'' \<mapsto>
              example_session ''vault1'' 6 (example_digest ''abcdef'')]"
          "''vault1:D1:big.bin''"
          "example_session ''vault1'' 6 (example_digest ''abcdef'')"
          example_digest 52428800 True Map.empty 1004 1 "''cd''" "example_digest ''cd''"]
    completeUpload_succeeds_iff
      [of "[''vault1:D1:big.bin'' \<mapsto>
              (example_session ''vault1'' 6 (example_digest ''abcdef''))
                \<lparr>receivedChunks := [0 \<mapsto> ''ab'', 2 \<mapsto> ''ef'']\<rparr>]"
          "''vault1:D1:big.bin''"
          "(example_session ''vault1'' 6 (example_digest ''abcdef''))
                \<lparr>receivedChunks := [0 \<mapsto> ''ab'', 2 \<mapsto> ''ef'']\<rparr>"
          example_digest 52428800 True Map.empty 1004 1 "''cd''" "example_digest ''cd''"]
  by (simp add: example_session_def example_digest_def completeUpload_def
      missingChunks_def finalBuffer_def uploadFailure_def writeFile_def
      getFileStoragePath_def validateVaultId_def validateFilePath_def base64_digit_def
      upt_rec)

text \<open>
  C2 as stated fails in the direction "if": every chunk is present, size and hash match
  the declared totals, and completion still fails, because the content store refuses the
  vault id \<open>my vault\<close> (\<open>validateVaultId\<close>); the error is caught and reported as
  \<open>Assembly failed\<close>.
\<close>

theorem completeUpload_verified_but_rejected_by_store:
  "missingChunks (example_session ''my vault'' 6 (example_digest ''abcdef'')) = []
   \<and> length (finalBuffer (example_session ''my vault'' 6 (example_digest ''abcdef''))) = 6
   \<and> example_digest (finalBuffer (example_session ''my vault'' 6
                                    (example_digest ''abcdef'')))
       = example_digest ''abcdef''
   \<and> completeUpload example_digest 52428800 True ''my vault:D1:big.bin''
       [''my vault:D1:big.bin'' \<mapsto>
          example_session ''my vault'' 6 (example_digest ''abcdef'')]
       Map.empty
     = (uploadFailure (Assembly_failed ''Invalid vaultId: my vault''),
        [''my vault:D1:big.bin'' \<mapsto>
          example_session ''my vault'' 6 (example_digest ''abcdef'')],
        Map.empty)"
  by (simp add: example_session_def example_digest_def completeUpload_def
      missingChunks_def finalBuffer_def writeFile_def
      getFileStoragePath_def validateVaultId_def upt_rec)

text \<open>
  C9, as amended. Every failed completion (no such session, missing chunks, size
  mismatch, mismatch of the final hash, a failed write to the content store) leaves the
  session table, and so the session and all of its stored chunks, and the content store
  unchanged, so that the transfer can be retried; a completion that succeeds removes the
  session.
\<close>

theorem completeUpload_failure_keeps_session:
  "(\<not> cu_success (fst (completeUpload sha maxFileSize fs_ok sessionId sessions dk)) \<longrightarrow>
      snd (completeUpload sha maxFileSize fs_ok sessionId sessions dk) = (sessions, dk))
   \<and> (cu_success (fst (completeUpload sha maxFileSize fs_ok sessionId sessions dk)) \<longrightarrow>
      fst (snd (completeUpload sha maxFileSize fs_ok sessionId sessions dk))
        = sessions(sessionId := None))"
  by (auto simp add: completeUpload_def uploadFailure_def split: option.splits sum.splits)

theorem completeUpload_failure_keeps_session_witness:
  "fst (snd (completeUpload example_digest 52428800 True ''vault1:D1:big.bin''
       [''vault1:D1:big.bin'' \<mapsto> example_session ''vault1'' 7 (example_digest ''abcdef'')]
       Map.empty))
     = [''vault1:D1:big.bin'' \<mapsto> example_session ''vault1'' 7 (example_digest ''abcdef'')]
   \<and> fst (snd (completeUpload example_digest 52428800 True ''vault1:D1:big.bin''
       [''vault1:D1:big.bin'' \<mapsto> example_session ''vault1'' 6 (example_digest ''abcdef'')]
       Map.empty)) ''vault1:D1:big.bin'' = None"
  using
    completeUpload_failure_keeps_session
      [of example_digest 52428800 True "''vault1:D1:big.bin''"
          "[''vault1:D1:big.bin'' \<mapsto>
              example_session ''vault1'' 7 (example_digest ''abcdef'')]" Map.empty]
    completeUpload_failure_keeps_session
      [of example_digest 52428800 True "''vault1:D1:big.bin''"
          "[''vault1:D1:big.bin'' \<mapsto>
              example_session ''vault1'' 6 (example_digest ''abcdef'')]" Map.empty]
  by (simp add: example_session_def example_digest_def completeUpload_def
      missingChunks_def finalBuffer_def uploadFailure_def writeFile_def
      getFileStoragePath_def validateVaultId_def validateFilePath_def base64_digit_def
      upt_rec)

text \<open>
  C9 as stated fails for the final hash mismatch: the completion fails with
  \<open>Final file hash verification failed\<close> and the session is still in the table, with
  its chunks.
\<close>

theorem completeUpload_hash_mismatch_keeps_session:
  "completeUpload example_digest 52428800 True ''vault1:D1:big.bin''
       [''vault1:D1:big.bin'' \<mapsto> example_session ''vault1'' 6 (example_digest ''abcxyz'')]
       Map.empty
     = (uploadFailure Final_file_hash_verification_failed,
        [''vault1:D1:big.bin'' \<mapsto> example_session ''vault1'' 6 (example_digest ''abcxyz'')],
        Map.empty)"
  by (simp add: example_session_def example_digest_def completeUpload_def
      missingChunks_def finalBuffer_def upt_rec)

section \<open>Properties of the message handlers\<close>

text \<open>
  What the handlers answer, whatever the store and the message are: a \<open>file-change\<close>
  that is answered at all is answered with \<open>success = true\<close>. The resolver's decision
  for a delete depends on the record and on the flag it is given; \<open>processDeleteOperation\<close>
  gives none, so a delete of an absent record is accepted and changes neither files nor
  locks, and a delete of a present record is accepted and removes the record and its lock
  row. A \<open>request-lock\<close> is answered \<open>lock-acquired\<close>.
\<close>

lemma handleFileChange_always_success:
  assumes "fst (handleFileChange sha maxFileSize now_r now_w message st) = Inr (out, calls)"
  shows "fr_success (response out)"
  using assms
  by (auto simp add: handleFileChange_def Let_def
      split: if_splits prod.splits sum.splits option.splits)

lemma resolveDeleteConflict_decision:
  "resolveDeleteConflict vault path None hasActiveLocks =
     (mkResolution Accept ''File already does not exist'')\<lparr>updated := Some ''already_deleted''\<rparr>"
  "resolveDeleteConflict vault path (Some f) (Some True) =
     (mkResolution Reject ''Cannot delete file with active locks'')
       \<lparr>conflictType := Some ''file_locked''\<rparr>"
  "resolveDeleteConflict vault path (Some f) (Some False) =
     mkResolution Accept ''Delete operation is valid''"
  "resolveDeleteConflict vault path (Some f) None =
     mkResolution Accept ''Delete operation is valid''"
  by (simp_all add: resolveDeleteConflict_def truthy_boolean_def)

lemma processDeleteOperation_absent:
  assumes "files st (fo_vaultId data, fo_filePath data) = None"
  shows "fst (processDeleteOperation data deviceDbId st) = Inr (operationResult True 0 [], [])
       \<and> files (snd (processDeleteOperation data deviceDbId st)) = files st
       \<and> fileLocks (snd (processDeleteOperation data deviceDbId st)) = fileLocks st"
  using assms
  by (simp add: processDeleteOperation_def transaction_def resolveDeleteConflict_def
      mkResolution_def syncOperation_create_def syncOperation_set_status_def Let_def)

lemma processDeleteOperation_present:
  assumes "files st (fo_vaultId data, fo_filePath data) = Some f"
  shows "fst (processDeleteOperation data deviceDbId st)
           = Inr (operationResult True 0 [],
                  [DeleteFileCall (fo_vaultId data) (fo_filePath data)])
       \<and> files (snd (processDeleteOperation data deviceDbId st))
           = (files st)((fo_vaultId data, fo_filePath data) := None)
       \<and> fileLocks (snd (processDeleteOperation data deviceDbId st))
           = (fileLocks st)(file_id f := None)"
  using assms
  by (simp add: processDeleteOperation_def transaction_def resolveDeleteConflict_def
      mkResolution_def truthy_boolean_def syncOperation_create_def
      syncOperation_set_status_def Let_def)

lemma handleRequestLock_always_acquired:
  "lk_type (fst (handleRequestLock lockExpiration now now' now'' message st))
     = ''lock-acquired''"
  by (simp add: handleRequestLock_def truthy_object_def split: prod.splits)

text \<open>
  C5. The stale client of the scenario: \<open>note.md\<close> is stored at version 2 with the
  digest of \<open>v2\<close>; device \<open>D1\<close> sends a \<open>file-change\<close> with content \<open>v3\<close> and the
  prior hash of \<open>v1\<close>. \<open>handleFileChange\<close> does not pass the prior hash on: with a newer
  timestamp the write is applied (version 3, the stored hash becomes the digest of \<open>v3\<close>)
  and broadcast; with an older timestamp the resolver rejects it as \<open>older_timestamp\<close>,
  and the handler still answers \<open>success = true\<close> and returns the broadcast message. In
  neither case is the answer a \<open>hash_mismatch\<close> reject.
\<close>

theorem stale_file_change_not_rejected:
  "fst (handleFileChange example_digest 52428800 5000 5001
         \<lparr>fc_vaultId = ''vault1'', fc_filePath = ''note.md'', fc_content = ''v3'',
          fc_hash = example_digest ''v3'', fc_timestamp = 9000, fc_deviceId = ''D1'',
          fc_previousHash = Some (example_digest ''v1'')\<rparr>
         example_store)
     = Inr (\<lparr>broadcastMessage =
               \<lparr>fc_vaultId = ''vault1'', fc_filePath = ''note.md'', fc_content = ''v3'',
                fc_hash = example_digest ''v3'', fc_timestamp = 9000,
                fc_deviceId = ''D1'', fc_previousHash = None\<rparr>,
             response =
               \<lparr>fr_type = ''file-change-response'', fr_success = True,
                fr_filePath = ''note.md'', fr_hash = example_digest ''v3'',
                fr_version = 3\<rparr>\<rparr>,
            [WriteFileCall ''vault1'' ''note.md'' ''v3''])
   \<and> map_option file_hash
        (files (snd (handleFileChange example_digest 52428800 5000 5001
          \<lparr>fc_vaultId = ''vault1'', fc_filePath = ''note.md'', fc_content = ''v3'',
           fc_hash = example_digest ''v3'', fc_timestamp = 9000, fc_deviceId = ''D1'',
           fc_previousHash = Some (example_digest ''v1'')\<rparr>
          example_store)) (''vault1'', ''note.md''))
     = Some (example_digest ''v3'')
   \<and> map_option file_hash (files example_store (''vault1'', ''note.md''))
     = Some (example_digest ''v2'')
   \<and> fst (handleFileChange example_digest 52428800 5000 5001
         \<lparr>fc_vaultId = ''vault1'', fc_filePath = ''note.md'', fc_content = ''v3'',
          fc_hash = example_digest ''v3'', fc_timestamp = 500, fc_deviceId = ''D1'',
          fc_previousHash = Some (example_digest ''v1'')\<rparr>
         example_store)
     = Inr (\<lparr>broadcastMessage =
               \<lparr>fc_vaultId = ''vault1'', fc_filePath = ''note.md'', fc_content = ''v3'',
                fc_hash = example_digest ''v3'', fc_timestamp = 500,
                fc_deviceId = ''D1'', fc_previousHash = None\<rparr>,
             response =
               \<lparr>fr_type = ''file-change-response'', fr_success = True,
                fr_filePath = ''note.md'', fr_hash = example_digest ''v2'',
                fr_version = 2\<rparr>\<rparr>,
            [])"
  by (simp add: handleFileChange_def processFileChange_def
      processCreateUpdateOperation_def transaction_def syncOperation_create_def
      syncOperation_set_status_def resolveFileConflict_def mkResolution_def
      truthy_string_def truthy_number_def claimedMtime_def newDate_def date_gt_def date_le_def operationResult_def
      example_store_def example_digest_def Let_def)

text \<open>
  C6. Device \<open>D1\<close> holds a lock on \<open>shared.md\<close> that expires at 31000; at time 2000
  device \<open>D2\<close> sends a \<open>file-delete\<close> for it. \<open>processDeleteOperation\<close> calls the
  resolver without its \<open>hasActiveLocks\<close> argument, so the resolver accepts and the delete
  is not rejected as \<open>file_locked\<close>: it succeeds, is broadcast, and the file record and
  the lock row of \<open>D1\<close> are deleted. Called with \<open>hasActiveLocks = true\<close>, the resolver
  would have rejected it.
\<close>

theorem delete_of_locked_file_accepted:
  "handleFileDelete example_digest 52428800 2000
     \<lparr>fd_vaultId = ''vault1'', fd_filePath = ''shared.md'', fd_deviceId = ''D2''\<rparr>
     example_store
   = (Inr (\<lparr>fd_broadcast_type = ''file-delete'', fd_broadcast_vaultId = ''vault1'',
            fd_broadcast_filePath = ''shared.md'', fd_broadcast_timestamp = 2000,
            fd_response_type = ''file-delete-success'', fd_response_success = True,
            fd_response_filePath = ''shared.md''\<rparr>,
           [DeleteFileCall ''vault1'' ''shared.md'']),
      example_store
        \<lparr>files := (files example_store)((''vault1'', ''shared.md'') := None),
         fileLocks := (fileLocks example_store)(11 := None),
         syncOperations :=
           [\<lparr>op_id = 21, op_vaultId = ''vault1'', op_deviceId = 2,
             op_operationType = DELETE, op_filePath = ''shared.md'',
             op_previousHash = None, op_newHash = None, op_timestamp = None,
             op_status = ''applied''\<rparr>],
         nextId := 22\<rparr>)
   \<and> map_option lock_deviceId (fileLocks example_store 11) = Some 1
   \<and> map_option expiresAt (fileLocks example_store 11) = Some 31000
   \<and> map_option dev_id (devices example_store ''D2'') = Some 2
   \<and> action (resolveDeleteConflict ''vault1'' ''shared.md''
                 (files example_store (''vault1'', ''shared.md'')) None)
       = Accept
   \<and> conflictType (resolveDeleteConflict ''vault1'' ''shared.md''
                      (files example_store (''vault1'', ''shared.md'')) (Some True))
       = Some ''file_locked''"
  by (simp add: handleFileDelete_def processFileChange_def processDeleteOperation_def
      transaction_def syncOperation_create_def syncOperation_set_status_def
      resolveDeleteConflict_def mkResolution_def truthy_boolean_def operationResult_def
      example_store_def Let_def)

text \<open>
  C7. Device \<open>D1\<close> holds a lock on \<open>shared.md\<close> that expires at 31000; at time 2000
  device \<open>D2\<close> sends a \<open>request-lock\<close> for it. The lock manager denies the request and
  reports the expiry 31000, but \<open>handleRequestLock\<close> tests the result object itself, which
  is truthy, and answers \<open>lock-acquired\<close> with an expiry of its own (its clock + 30000).
\<close>

theorem lock_request_of_second_device_acquired:
  "fst (requestFileLock 30000 2000 2001 ''vault1'' ''shared.md'' ''D2'' example_store)
     = \<lparr>lr_success = False, lr_lock = None,
        lr_reason = Some ''File is locked by another device'',
        lr_expiresAt = Some 31000\<rparr>
   \<and> fst (handleRequestLock 30000 2000 2001 2002
          \<lparr>rl_vaultId = ''vault1'', rl_filePath = ''shared.md'', rl_deviceId = ''D2''\<rparr>
          example_store)
     = \<lparr>lk_type = ''lock-acquired'', lk_vaultId = ''vault1'', lk_filePath = ''shared.md'',
        lk_deviceId = Some ''D2'', lk_expiresAt = Some 32002, lk_reason = None\<rparr>"
  by (simp add: handleRequestLock_def requestFileLock_def truthy_object_def
      example_store_def Let_def)

end
